theory Spec2Isabelle
  imports Complex_Main "HOL-Library.Multiset"
begin

section \<open>Python values and errors\<close>

text \<open>
  The exceptions the modelled code can raise.  \<open>RequestError\<close> stands for whatever
  \<^verbatim>\<open>requests.get\<close> raises (connection failure, timeout) and \<open>JSONDecodeError\<close> for a
  response body that \<^verbatim>\<open>response.json()\<close> cannot decode.
\<close>

datatype py_error =
    IndexError | KeyError | TypeError | ValueError | SyntaxError
  | RequestError | JSONDecodeError

text \<open>Sequencing of computations that may raise: the first error wins.\<close>

definition and_then :: "py_error + 'a \<Rightarrow> ('a \<Rightarrow> py_error + 'b) \<Rightarrow> py_error + 'b" where
  "and_then r f = (case r of Inl e \<Rightarrow> Inl e | Inr v \<Rightarrow> f v)"

text \<open>
  An optional collection argument (\<^verbatim>\<open>genres: Set[str] = None\<close>).  Every use in the
  source is guarded by Python truthiness: \<^verbatim>\<open>None\<close> and the empty collection are
  both false.
\<close>

definition truthy :: "'a list option \<Rightarrow> bool" where
  "truthy x = (case x of None \<Rightarrow> False | Some xs \<Rightarrow> xs \<noteq> [])"

definition elems :: "'a list option \<Rightarrow> 'a list" where
  "elems x = (case x of None \<Rightarrow> [] | Some xs \<Rightarrow> xs)"

text \<open>
  \<^verbatim>\<open>xs[start:stop]\<close> with step 1, as \<^verbatim>\<open>slice.indices\<close> computes it: a negative bound
  counts from the end, and both bounds are clamped to the length.
\<close>

definition py_slice :: "'a list \<Rightarrow> int \<Rightarrow> int \<Rightarrow> 'a list" where
  "py_slice xs start stop =
     (let n = int (length xs);
          lo = (if start < 0 then max 0 (n + start) else min start n);
          hi = (if stop < 0 then max 0 (n + stop) else min stop n)
      in take (nat (hi - lo)) (drop (nat lo) xs))"

text \<open>\<^verbatim>\<open>sub in s\<close> on two strings: \<open>sub\<close> occurs in \<open>s\<close> as a contiguous substring.\<close>

fun starts_with :: "string \<Rightarrow> string \<Rightarrow> bool" where
  "starts_with [] s = True"
| "starts_with (c # cs) [] = False"
| "starts_with (c # cs) (d # ds) = (c = d \<and> starts_with cs ds)"

fun str_contains :: "string \<Rightarrow> string \<Rightarrow> bool" where
  "str_contains sub [] = (sub = [])"
| "str_contains sub (d # ds) = (starts_with sub (d # ds) \<or> str_contains sub ds)"

section \<open>The catalog and the similarity matrix\<close>

text \<open>
  One row of \<^verbatim>\<open>self.movies\<close>.  \<open>genres\<close> is the column after \<^verbatim>\<open>_init_movies\<close> has
  applied \<^verbatim>\<open>parse\<close> to it (a list of names).  \<open>cast\<close> is the cell as the filters read
  it, with \<^verbatim>\<open>for person in eval(row['cast'])\<close> and \<^verbatim>\<open>person['name']\<close>: an error when
  \<^verbatim>\<open>eval\<close> raises or its value cannot be iterated (a null cell is not a string:
  \<open>TypeError\<close>), else the persons in order, each with the outcome of
  \<^verbatim>\<open>person['name']\<close>.  \<open>production_countries\<close> is the raw serialized text of the column,
  which the filters search as a string, and \<open>None\<close> where the cell is null (NaN).
  \<open>overview\<close> is \<open>None\<close> where the cell is null.
\<close>

record movie =
  title :: string
  genres :: "string list"
  cast :: "py_error + (py_error + string) list"
  production_countries :: "string option"
  overview :: "string option"

text \<open>
  The engine: \<open>movies\<close> is the data frame indexed by \<^verbatim>\<open>id\<close>, rows in load order;
  \<open>distance_columns\<close> and \<open>distance_rows\<close> are the column labels and the labelled
  rows of \<^verbatim>\<open>self.distance\<close>.  Label lookup (\<^verbatim>\<open>.loc\<close>) is modelled for unique labels.
\<close>

record ContentBaseRecSys =
  movies :: "(int \<times> movie) list"
  distance_columns :: "int list"
  distance_rows :: "(int \<times> real list) list"

text \<open>\<^verbatim>\<open>self.distance.loc[movie_index]\<close>: the row as a series labelled by the columns.\<close>

definition distance_loc :: "ContentBaseRecSys \<Rightarrow> int \<Rightarrow> py_error + (int \<times> real) list" where
  "distance_loc self movie_index =
     (case map_of (distance_rows self) movie_index of
        None \<Rightarrow> Inl KeyError
      | Some vs \<Rightarrow> Inr (zip (distance_columns self) vs))"

text \<open>\<^verbatim>\<open>self.movies.loc[index]\<close> for a single label.\<close>

definition movies_loc :: "ContentBaseRecSys \<Rightarrow> int \<Rightarrow> py_error + movie" where
  "movies_loc self i =
     (case map_of (movies self) i of None \<Rightarrow> Inl KeyError | Some m \<Rightarrow> Inr m)"

text \<open>\<^verbatim>\<open>self.movies.loc[indices, 'title'].tolist()\<close>: a missing label raises.\<close>

fun movies_loc_titles :: "ContentBaseRecSys \<Rightarrow> int list \<Rightarrow> py_error + string list" where
  "movies_loc_titles self [] = Inr []"
| "movies_loc_titles self (i # is) =
     and_then (movies_loc self i) (\<lambda>m.
     and_then (movies_loc_titles self is) (\<lambda>ts. Inr (title m # ts)))"

section \<open>The filters\<close>

text \<open>
  The three tests the source writes with \<^verbatim>\<open>any(...)\<close>.  Membership of a string in the
  parsed genre list cannot raise.  The actor test stops at the first person whose name
  is requested, and raises where \<^verbatim>\<open>eval\<close> or \<^verbatim>\<open>person['name']\<close> raises before that.
  The country test is \<^verbatim>\<open>country_i in row['production_countries']\<close>: a substring test
  on text, \<open>TypeError\<close> on a null cell.
\<close>

definition any_genre :: "string list \<Rightarrow> movie \<Rightarrow> py_error + bool" where
  "any_genre gs m = Inr (list_ex (\<lambda>genre. genre \<in> set (genres m)) gs)"

fun any_person :: "string list \<Rightarrow> (py_error + string) list \<Rightarrow> py_error + bool" where
  "any_person actor [] = Inr False"
| "any_person actor (person # persons) =
     and_then person (\<lambda>name. if name \<in> set actor then Inr True else any_person actor persons)"

definition any_actor :: "string list \<Rightarrow> movie \<Rightarrow> py_error + bool" where
  "any_actor actor m = and_then (cast m) (any_person actor)"

definition any_country :: "string list \<Rightarrow> movie \<Rightarrow> py_error + bool" where
  "any_country cs m =
     (case production_countries m of
        None \<Rightarrow> if cs = [] then Inr False else Inl TypeError
      | Some text \<Rightarrow> Inr (list_ex (\<lambda>country_i. str_contains country_i text) cs))"

text \<open>\<^verbatim>\<open>a or b\<close> on two tests: the second is evaluated only when the first is false.\<close>

definition or_else :: "py_error + bool \<Rightarrow> py_error + bool \<Rightarrow> py_error + bool" where
  "or_else a b = and_then a (\<lambda>hit. if hit then Inr True else b)"

text \<open>
  The loop \<^verbatim>\<open>for index, row in self.movies.iterrows(): if test(row): append(index)\<close>;
  the first row whose test raises ends it.
\<close>

fun iterrows_where :: "(movie \<Rightarrow> py_error + bool) \<Rightarrow> (int \<times> movie) list \<Rightarrow> py_error + int list" where
  "iterrows_where test [] = Inr []"
| "iterrows_where test ((index, row) # rest) =
     and_then (test row) (\<lambda>hit.
     and_then (iterrows_where test rest) (\<lambda>filtered_movies.
     Inr (if hit then index # filtered_movies else filtered_movies)))"

definition filter_movies_by_genre :: "ContentBaseRecSys \<Rightarrow> string list \<Rightarrow> py_error + int list" where
  "filter_movies_by_genre self gs = iterrows_where (any_genre gs) (movies self)"

definition filter_movies_by_actor :: "ContentBaseRecSys \<Rightarrow> string list \<Rightarrow> py_error + int list" where
  "filter_movies_by_actor self actor = iterrows_where (any_actor actor) (movies self)"

definition filter_movies_by_genre_and_actor ::
  "ContentBaseRecSys \<Rightarrow> string list \<Rightarrow> string list \<Rightarrow> py_error + int list" where
  "filter_movies_by_genre_and_actor self gs actor =
     iterrows_where (\<lambda>row. or_else (any_genre gs row) (any_actor actor row)) (movies self)"

definition filter_movies_by_country :: "ContentBaseRecSys \<Rightarrow> string list \<Rightarrow> py_error + int list" where
  "filter_movies_by_country self cs = iterrows_where (any_country cs) (movies self)"

definition filter_movies_by_genre_and_country ::
  "ContentBaseRecSys \<Rightarrow> string list \<Rightarrow> string list \<Rightarrow> py_error + int list" where
  "filter_movies_by_genre_and_country self gs cs =
     iterrows_where (\<lambda>row. or_else (any_genre gs row) (any_country cs row)) (movies self)"

section \<open>Ranking\<close>

text \<open>
  \<^verbatim>\<open>[index for index in distances.index if test(self.movies.loc[index])]\<close> followed by
  \<^verbatim>\<open>distances[distances.index.isin(filtered_indices)]\<close>: the entries whose label passes
  the test, in order; the first label that is missing from the catalog (\<open>KeyError\<close>)
  or whose test raises ends the comprehension.
\<close>

fun keep_where :: "ContentBaseRecSys \<Rightarrow> (movie \<Rightarrow> py_error + bool) \<Rightarrow> (int \<times> real) list
    \<Rightarrow> py_error + (int \<times> real) list" where
  "keep_where self test [] = Inr []"
| "keep_where self test (e # es) =
     and_then (movies_loc self (fst e)) (\<lambda>m.
     and_then (test m) (\<lambda>hit.
     and_then (keep_where self test es) (\<lambda>r. Inr (if hit then e # r else r))))"

text \<open>
  The value of the local variable \<^verbatim>\<open>distances\<close> of \<^verbatim>\<open>get_top_k_movies\<close> when line 143
  is reached.  \<open>sort_values\<close> is \<^verbatim>\<open>Series.sort_values(ascending=False)\<close>, a library
  function taken as a parameter: pandas sorts with an unstable algorithm, so only
  \<open>sorts_descending\<close> below is known of it.
\<close>

definition ranked_distances ::
  "((int \<times> real) list \<Rightarrow> (int \<times> real) list) \<Rightarrow> ContentBaseRecSys \<Rightarrow> int \<Rightarrow> int list option
    \<Rightarrow> string list option \<Rightarrow> string list option \<Rightarrow> string list option
    \<Rightarrow> py_error + (int \<times> real) list" where
  "ranked_distances sort_values self movie_index filtered_movies gs actor country =
     and_then (distance_loc self movie_index) (\<lambda>row.
     and_then (Inr (sort_values row)) (\<lambda>d0.
     and_then (Inr (if truthy filtered_movies
                    then filter (\<lambda>e. fst e \<in> set (elems filtered_movies)) d0 else d0)) (\<lambda>d1.
     and_then (if truthy gs then keep_where self (any_genre (elems gs)) d1 else Inr d1) (\<lambda>d2.
     and_then (if truthy actor then keep_where self (any_actor (elems actor)) d2 else Inr d2) (\<lambda>d3.
     (if truthy country then keep_where self (any_country (elems country)) d3 else Inr d3))))))"

definition get_top_k_movies ::
  "((int \<times> real) list \<Rightarrow> (int \<times> real) list) \<Rightarrow> ContentBaseRecSys \<Rightarrow> int \<Rightarrow> int \<Rightarrow> int list option
    \<Rightarrow> string list option \<Rightarrow> string list option \<Rightarrow> string list option
    \<Rightarrow> py_error + int list" where
  "get_top_k_movies sort_values self movie_index top_k filtered_movies gs actor country =
     and_then (ranked_distances sort_values self movie_index filtered_movies gs actor country)
       (\<lambda>distances. Inr (py_slice (map fst distances) 1 (top_k + 1)))"

text \<open>
  Line 100, \<^verbatim>\<open>self.movies[self.movies['title'] == title].index[0]\<close>: the label of the
  first row whose title equals the query; \<open>IndexError\<close> when the selection is empty.
\<close>

definition title_index :: "ContentBaseRecSys \<Rightarrow> string \<Rightarrow> py_error + int" where
  "title_index self t =
     (case filter (\<lambda>(index, row). title row = t) (movies self) of
        [] \<Rightarrow> Inl IndexError
      | (index, row) # rest \<Rightarrow> Inr index)"

text \<open>Lines 101 to 106: the chain of conditional expressions, first true guard wins.\<close>

definition filtered_movies_of ::
  "ContentBaseRecSys \<Rightarrow> string list option \<Rightarrow> string list option \<Rightarrow> string list option
    \<Rightarrow> py_error + int list option" where
  "filtered_movies_of self gs actor country =
     (if truthy gs \<and> truthy country
        then and_then (filter_movies_by_genre_and_country self (elems gs) (elems country))
               (\<lambda>found. Inr (Some found))
      else if truthy gs \<and> truthy actor
        then and_then (filter_movies_by_genre_and_actor self (elems gs) (elems actor))
               (\<lambda>found. Inr (Some found))
      else if truthy gs
        then and_then (filter_movies_by_genre self (elems gs)) (\<lambda>found. Inr (Some found))
      else if truthy actor
        then and_then (filter_movies_by_actor self (elems actor)) (\<lambda>found. Inr (Some found))
      else if truthy country
        then and_then (filter_movies_by_country self (elems country)) (\<lambda>found. Inr (Some found))
      else Inr None)"

definition recommendation ::
  "((int \<times> real) list \<Rightarrow> (int \<times> real) list) \<Rightarrow> ContentBaseRecSys \<Rightarrow> string \<Rightarrow> int
    \<Rightarrow> string list option \<Rightarrow> string list option \<Rightarrow> string list option
    \<Rightarrow> py_error + string list" where
  "recommendation sort_values self t top_k gs actor country =
     and_then (title_index self t) (\<lambda>movie_index.
     and_then (filtered_movies_of self gs actor country) (\<lambda>filtered_movies.
     and_then (get_top_k_movies sort_values self movie_index top_k filtered_movies gs actor country)
       (\<lambda>top_movies_indices. movies_loc_titles self top_movies_indices)))"

definition update_recommendations ::
  "((int \<times> real) list \<Rightarrow> (int \<times> real) list) \<Rightarrow> ContentBaseRecSys \<Rightarrow> string \<Rightarrow> int
    \<Rightarrow> string list option \<Rightarrow> string list option \<Rightarrow> string list option
    \<Rightarrow> py_error + string list" where
  "update_recommendations sort_values self new_title top_k gs actor country =
     recommendation sort_values self new_title top_k gs actor country"

text \<open>
  What is known of \<^verbatim>\<open>sort_values(ascending=False)\<close>: the result holds the same entries,
  scores non-increasing.  The order of entries with equal scores is not specified.
\<close>

definition sorts_descending :: "((int \<times> real) list \<Rightarrow> (int \<times> real) list) \<Rightarrow> bool" where
  "sorts_descending sort_values =
     (\<forall>xs. mset (sort_values xs) = mset xs
         \<and> sorted_wrt (\<lambda>a b. snd b \<le> snd a) (sort_values xs))"

text \<open>
  One admissible instance, used to run the model: a stable sort, which leaves entries
  with equal scores in the column order of the matrix.
\<close>

definition stable_sort_values :: "(int \<times> real) list \<Rightarrow> (int \<times> real) list" where
  "stable_sort_values xs = sort_key (\<lambda>e. - snd e) xs"

text \<open>
  \<^verbatim>\<open>get_overview\<close>: the synopsis of the first row with the given title.  The result is
  \<open>None\<close> for Python's \<^verbatim>\<open>None\<close>; the \<^verbatim>\<open>except IndexError\<close> branch returns the empty
  string.
\<close>

definition get_overview :: "ContentBaseRecSys \<Rightarrow> string \<Rightarrow> string option" where
  "get_overview self movie_title =
     (case filter (\<lambda>(index, row). title row = movie_title) (movies self) of
        [] \<Rightarrow> Some []
      | (index, row) # rest \<Rightarrow>
          (case overview row of None \<Rightarrow> None | Some text \<Rightarrow> Some text))"

section \<open>Which identifiers survive the filters\<close>

text \<open>
  \<open>passes self test i\<close>: identifier \<open>i\<close> is in the catalog and the test of its row
  returns true.  \<open>eligible\<close> is the conjunction of the tests of the dimensions that
  were supplied; \<open>survives\<close> adds membership in the precomputed list when that list is
  non-empty.
\<close>

definition passes :: "ContentBaseRecSys \<Rightarrow> (movie \<Rightarrow> py_error + bool) \<Rightarrow> int \<Rightarrow> bool" where
  "passes self test i =
     (case map_of (movies self) i of None \<Rightarrow> False | Some m \<Rightarrow> test m = Inr True)"

definition eligible :: "ContentBaseRecSys \<Rightarrow> string list option \<Rightarrow> string list option
    \<Rightarrow> string list option \<Rightarrow> int \<Rightarrow> bool" where
  "eligible self gs actor country i =
     ((if truthy gs then passes self (any_genre (elems gs)) i else True)
    \<and> (if truthy actor then passes self (any_actor (elems actor)) i else True)
    \<and> (if truthy country then passes self (any_country (elems country)) i else True))"

definition survives :: "ContentBaseRecSys \<Rightarrow> int list option \<Rightarrow> string list option
    \<Rightarrow> string list option \<Rightarrow> string list option \<Rightarrow> int \<Rightarrow> bool" where
  "survives self filtered_movies gs actor country i =
     ((if truthy filtered_movies then i \<in> set (elems filtered_movies) else True)
    \<and> eligible self gs actor country i)"

text \<open>
  The cells that the supplied filters read can be read: with an actor filter, every
  \<^verbatim>\<open>cast\<close> cell evaluates to persons that all have a name; with a country filter, no
  \<^verbatim>\<open>production_countries\<close> cell is null.
\<close>

definition cast_readable :: "movie \<Rightarrow> bool" where
  "cast_readable m =
     (case cast m of
        Inl e \<Rightarrow> False
      | Inr persons \<Rightarrow> list_all (\<lambda>person. case person of Inl e \<Rightarrow> False | Inr name \<Rightarrow> True) persons)"

definition cells_readable ::
  "ContentBaseRecSys \<Rightarrow> string list option \<Rightarrow> string list option \<Rightarrow> bool" where
  "cells_readable self actor country =
     ((if truthy actor then list_all (\<lambda>(index, row). cast_readable row) (movies self) else True)
    \<and> (if truthy country
        then list_all (\<lambda>(index, row). production_countries row \<noteq> None) (movies self) else True))"

section \<open>Parsing a serialized column\<close>

text \<open>
  The values a Python literal or a decoded JSON document can denote.  A dictionary is
  its list of items in insertion order, keys unique.
\<close>

datatype pyval =
    PyNone | PyBool bool | PyInt int | PyFloat real | PyStr string | PyBytes string
  | PyList "pyval list" | PyTuple "pyval list" | PySet "pyval list"
  | PyDict "(pyval \<times> pyval) list"

text \<open>\<^verbatim>\<open>for item in v\<close>: the items of an iterable; other values raise \<open>TypeError\<close>.\<close>

fun py_iter :: "pyval \<Rightarrow> py_error + pyval list" where
  "py_iter (PyList xs) = Inr xs"
| "py_iter (PyTuple xs) = Inr xs"
| "py_iter (PySet xs) = Inr xs"
| "py_iter (PyDict kvs) = Inr (map fst kvs)"
| "py_iter (PyStr s) = Inr (map (\<lambda>c. PyStr [c]) s)"
| "py_iter (PyBytes b) = Inr (map (\<lambda>c. PyInt (int (of_char c))) b)"
| "py_iter v = Inl TypeError"

text \<open>
  \<^verbatim>\<open>v[key]\<close> with a string key: only a dictionary accepts it, and raises \<open>KeyError\<close>
  without the key; strings, sequences and scalars raise \<open>TypeError\<close>.
\<close>

fun py_getitem :: "pyval \<Rightarrow> string \<Rightarrow> py_error + pyval" where
  "py_getitem (PyDict kvs) key =
     (case map_of kvs (PyStr key) of None \<Rightarrow> Inl KeyError | Some v \<Rightarrow> Inr v)"
| "py_getitem v key = Inl TypeError"

text \<open>\<^verbatim>\<open>[item['name'] for item in parsed_list]\<close>, once the iterable has been unfolded.\<close>

fun item_names :: "pyval list \<Rightarrow> py_error + pyval list" where
  "item_names [] = Inr []"
| "item_names (item # items) =
     and_then (py_getitem item ''name'') (\<lambda>n.
     and_then (item_names items) (\<lambda>ns. Inr (n # ns)))"

text \<open>
  \<^verbatim>\<open>parse\<close>.  \<open>literal_eval\<close> is \<^verbatim>\<open>ast.literal_eval\<close>, a library function taken as a
  parameter.  The \<^verbatim>\<open>try\<close> block covers the call and the comprehension, and catches
  \<open>ValueError\<close> and \<open>SyntaxError\<close> only.
\<close>

definition parse :: "(string \<Rightarrow> py_error + pyval) \<Rightarrow> string option \<Rightarrow> py_error + pyval list" where
  "parse literal_eval parsed_column =
     (case parsed_column of
        None \<Rightarrow> Inr []
      | Some s \<Rightarrow>
          (case and_then (literal_eval s) (\<lambda>parsed_list.
                and_then (py_iter parsed_list) item_names) of
             Inl e \<Rightarrow> if e = ValueError \<or> e = SyntaxError then Inr [] else Inl e
           | Inr names \<Rightarrow> Inr names))"

text \<open>
  The value of \<^verbatim>\<open>ast.literal_eval\<close> at the strings of the examples below; the examples
  use no other string.
\<close>

definition literal_eval_sample :: "string \<Rightarrow> py_error + pyval" where
  "literal_eval_sample s =
     (if s = ''[{'name': 'Comedy'}, {'name': 'Action'}]''
        then Inr (PyList [PyDict [(PyStr ''name'', PyStr ''Comedy'')],
                          PyDict [(PyStr ''name'', PyStr ''Action'')]])
      else if s = ''[{'id': 35}]'' then Inr (PyList [PyDict [(PyStr ''id'', PyInt 35)]])
      else if s = ''5'' then Inr (PyInt 5)
      else if s = ''[{'name': 'Comedy'}'' then Inl SyntaxError
      else Inl ValueError)"

section \<open>The poster lookup\<close>

record OMDBApi =
  api_key :: string
  url :: string

text \<open>
  What the code reads of a \<^verbatim>\<open>requests\<close> response: the status and the outcome of
  \<^verbatim>\<open>response.json()\<close>, which raises when the body is not JSON.
\<close>

record response =
  status_code :: int
  json :: "py_error + pyval"

definition placeholder :: string where
  "placeholder =
     ''https://opros.pravovojstatus.ru/wp-content/plugins/Super-Quiz/admin/gifs/loading.gif''"

text \<open>\<^verbatim>\<open>key in v\<close> for a string key.\<close>

fun py_contains :: "string \<Rightarrow> pyval \<Rightarrow> py_error + bool" where
  "py_contains key (PyDict kvs) = Inr (PyStr key \<in> set (map fst kvs))"
| "py_contains key (PyList xs) = Inr (PyStr key \<in> set xs)"
| "py_contains key (PyTuple xs) = Inr (PyStr key \<in> set xs)"
| "py_contains key (PySet xs) = Inr (PyStr key \<in> set xs)"
| "py_contains key (PyStr s) = Inr (str_contains key s)"
| "py_contains key v = Inl TypeError"

text \<open>Python truthiness, as \<^verbatim>\<open>if path:\<close> tests it.\<close>

fun py_truthy :: "pyval \<Rightarrow> bool" where
  "py_truthy PyNone = False"
| "py_truthy (PyBool b) = b"
| "py_truthy (PyInt i) = (i \<noteq> 0)"
| "py_truthy (PyFloat x) = (x \<noteq> 0)"
| "py_truthy (PyStr s) = (s \<noteq> [])"
| "py_truthy (PyBytes b) = (b \<noteq> [])"
| "py_truthy (PyList xs) = (xs \<noteq> [])"
| "py_truthy (PyTuple xs) = (xs \<noteq> [])"
| "py_truthy (PySet xs) = (xs \<noteq> [])"
| "py_truthy (PyDict kvs) = (kvs \<noteq> [])"

text \<open>
  \<^verbatim>\<open>_get_image_path\<close>.  \<open>requests_get\<close> is \<^verbatim>\<open>requests.get(url, params=params)\<close>, the
  network call, taken as a parameter; it may raise.
\<close>

definition get_image_path ::
  "(string \<Rightarrow> (string \<times> string) list \<Rightarrow> py_error + response) \<Rightarrow> OMDBApi \<Rightarrow> string
    \<Rightarrow> py_error + pyval" where
  "get_image_path requests_get self t =
     (let params = [(''apikey'', api_key self), (''t'', t), (''type'', ''movie'')]
      in and_then (requests_get (url self) params) (\<lambda>response.
         if status_code response = 200
         then and_then (json response) (\<lambda>data.
              and_then (py_contains ''Poster'' data) (\<lambda>found.
              if found then py_getitem data ''Poster'' else Inr PyNone))
         else Inr PyNone))"

fun get_posters ::
  "(string \<Rightarrow> (string \<times> string) list \<Rightarrow> py_error + response) \<Rightarrow> OMDBApi \<Rightarrow> string list
    \<Rightarrow> py_error + pyval list" where
  "get_posters requests_get self [] = Inr []"
| "get_posters requests_get self (t # titles) =
     and_then (get_image_path requests_get self t) (\<lambda>path.
     and_then (get_posters requests_get self titles) (\<lambda>posters.
     Inr ((if py_truthy path then path else PyStr placeholder) # posters)))"

text \<open>
  A sample network: the service knows a poster for ``A'', answers 200 without a
  poster for ``B'', answers 404 for ``C'', and the request for any other title
  fails with an exception.
\<close>

definition omdb :: OMDBApi where
  "omdb = \<lparr>api_key = ''k'', url = ''https://www.omdbapi.com''\<rparr>"

definition requests_get_sample :: "string \<Rightarrow> (string \<times> string) list \<Rightarrow> py_error + response" where
  "requests_get_sample u params =
     (case map_of params ''t'' of
        None \<Rightarrow> Inl RequestError
      | Some t \<Rightarrow>
          if t = ''A''
            then Inr \<lparr>status_code = 200,
                      json = Inr (PyDict [(PyStr ''Title'', PyStr ''A''),
                                          (PyStr ''Poster'', PyStr ''https://img/a.jpg'')])\<rparr>
          else if t = ''B''
            then Inr \<lparr>status_code = 200,
                      json = Inr (PyDict [(PyStr ''Response'', PyStr ''False'')])\<rparr>
          else if t = ''C''
            then Inr \<lparr>status_code = 404, json = Inl JSONDecodeError\<rparr>
          else Inl RequestError)"

section \<open>A small catalog\<close>

text \<open>
  The scenario of the specification: A (id 1, Comedy), B (id 2, Action), C (id 3,
  Comedy), similarity row of A = {1: 1.0, 2: 0.2, 3: 0.8}.  \<open>mk_movie\<close> builds a row
  whose cells are all readable.
\<close>

definition mk_movie :: "string \<Rightarrow> string list \<Rightarrow> string list \<Rightarrow> string \<Rightarrow> string option \<Rightarrow> movie" where
  "mk_movie t gs c pc ov =
     \<lparr>title = t, genres = gs, cast = Inr (map Inr c), production_countries = Some pc,
      overview = ov\<rparr>"

definition scenario :: ContentBaseRecSys where
  "scenario =
     \<lparr>movies =
        [(1, mk_movie ''A'' [''Comedy''] [''Ann''] ''[{'name': 'France'}]'' (Some ''About A'')),
         (2, mk_movie ''B'' [''Action''] [''Bob''] ''[{'name': 'Niger'}]'' None),
         (3, mk_movie ''C'' [''Comedy''] [''Cy''] ''[{'name': 'Nigeria'}]'' (Some ''About C''))],
      distance_columns = [1, 2, 3],
      distance_rows = [(1, [1.0, 0.2, 0.8]), (2, [0.2, 1.0, 0.1]), (3, [0.8, 0.1, 1.0])]\<rparr>"

text \<open>
  The same three items with the matrix columns in file order 1, 3, 2 and equal scores
  for B and C in the row of A.
\<close>

definition tied :: ContentBaseRecSys where
  "tied =
     \<lparr>movies =
        [(1, mk_movie ''A'' [''Comedy''] [''Ann''] ''[{'name': 'France'}]'' (Some ''About A'')),
         (3, mk_movie ''C'' [''Comedy''] [''Cy''] ''[{'name': 'Nigeria'}]'' (Some ''About C'')),
         (2, mk_movie ''B'' [''Action''] [''Bob''] ''[{'name': 'Niger'}]'' None)],
      distance_columns = [1, 3, 2],
      distance_rows = [(1, [1.0, 0.5, 0.5]), (3, [0.5, 1.0, 0.1]), (2, [0.5, 0.1, 1.0])]\<rparr>"

text \<open>Two items; in the row of A the score of B is higher than the score of A itself.\<close>

definition upstaged :: ContentBaseRecSys where
  "upstaged =
     \<lparr>movies =
        [(1, mk_movie ''A'' [''Comedy''] [''Ann''] ''[{'name': 'France'}]'' None),
         (2, mk_movie ''B'' [''Comedy''] [''Bob''] ''[{'name': 'France'}]'' None)],
      distance_columns = [1, 2],
      distance_rows = [(1, [0.5, 0.9]), (2, [0.9, 0.5])]\<rparr>"

text \<open>A catalog in which two items share the title ``A''.\<close>

definition remake :: ContentBaseRecSys where
  "remake =
     \<lparr>movies =
        [(2, mk_movie ''B'' [''Action''] [] ''[]'' None),
         (5, mk_movie ''A'' [''Comedy''] [] ''[]'' None),
         (1, mk_movie ''A'' [''Drama''] [] ''[]'' None)],
      distance_columns = [2, 5, 1],
      distance_rows = [(2, [1.0, 0.3, 0.2]), (5, [0.3, 1.0, 0.6]), (1, [0.2, 0.6, 1.0])]\<rparr>"

text \<open>
  The scenario with two damaged cells: the \<^verbatim>\<open>production_countries\<close> cell of B is null,
  and the \<^verbatim>\<open>cast\<close> cell of C is null.
\<close>

definition gappy :: ContentBaseRecSys where
  "gappy =
     \<lparr>movies =
        [(1, mk_movie ''A'' [''Comedy''] [''Ann''] ''[{'name': 'France'}]'' (Some ''About A'')),
         (2, (mk_movie ''B'' [''Action''] [''Bob''] [] None)\<lparr>production_countries := None\<rparr>),
         (3, (mk_movie ''C'' [''Comedy''] [] ''[{'name': 'Nigeria'}]'' None)\<lparr>cast := Inl TypeError\<rparr>)],
      distance_columns = [1, 2, 3],
      distance_rows = [(1, [1.0, 0.2, 0.8]), (2, [0.2, 1.0, 0.1]), (3, [0.8, 0.1, 1.0])]\<rparr>"

section \<open>Basic facts\<close>

lemma and_then_Inr [simp]: "and_then (Inr v) f = f v"
  by (simp add: and_then_def)

lemma and_then_Inl [simp]: "and_then (Inl e) f = Inl e"
  by (simp add: and_then_def)

lemma stable_sort_values_sorts: "sorts_descending stable_sort_values"
proof -
  have "sorted_wrt (\<lambda>a b. snd b \<le> snd a) (sort_key (\<lambda>e. - snd e) xs)" for xs :: "(int \<times> real) list"
  proof -
    have "sorted (map (\<lambda>e. - snd e) (sort_key (\<lambda>e. - snd e) xs))"
      by (rule sorted_sort_key)
    then show ?thesis
      by (simp add: sorted_wrt_map)
  qed
  then show ?thesis
    by (simp add: sorts_descending_def stable_sort_values_def)
qed

section \<open>Filtering and slicing\<close>

lemma keep_where_Inr:
  "keep_where self test es = Inr r \<Longrightarrow>
     r = filter (\<lambda>e. passes self test (fst e)) es \<and> fst ` set es \<subseteq> fst ` set (movies self)"
proof (induction es arbitrary: r)
  case Nil
  then show ?case by simp
next
  case (Cons e es)
  from Cons.prems obtain m hit r' where m: "map_of (movies self) (fst e) = Some m"
    and hit: "test m = Inr hit"
    and r': "keep_where self test es = Inr r'" and r: "r = (if hit then e # r' else r')"
    by (auto simp: movies_loc_def and_then_def split: option.splits sum.splits)
  from m have "fst e \<in> fst ` set (movies self)"
    by (metis domI dom_map_of_conv_image_fst)
  with Cons.IH [OF r'] m hit r show ?case
    by (simp add: passes_def)
qed

lemma keep_where_total:
  assumes "fst ` set es \<subseteq> fst ` set (movies self)"
      and "\<And>j m. (j, m) \<in> set (movies self) \<Longrightarrow> \<exists>hit. test m = Inr hit"
  shows "keep_where self test es = Inr (filter (\<lambda>e. passes self test (fst e)) es)"
  using assms(1)
proof (induction es)
  case Nil
  then show ?case by simp
next
  case (Cons e es)
  then have "fst e \<in> fst ` set (movies self)" by simp
  then obtain m where m: "map_of (movies self) (fst e) = Some m"
    by (metis domD dom_map_of_conv_image_fst)
  then have "(fst e, m) \<in> set (movies self)" by (rule map_of_SomeD)
  from assms(2) [OF this] obtain hit where hit: "test m = Inr hit" by blast
  with Cons m show ?case
    by (simp add: movies_loc_def passes_def)
qed

lemma iterrows_where_Inr:
  "iterrows_where test rows = Inr found \<Longrightarrow>
     found = map fst (filter (\<lambda>(index, row). test row = Inr True) rows)"
proof (induction rows arbitrary: found)
  case Nil
  then show ?case by simp
next
  case (Cons ir rows)
  obtain index row where ir: "ir = (index, row)" by (cases ir)
  from Cons.prems ir obtain hit found' where hit: "test row = Inr hit"
    and f': "iterrows_where test rows = Inr found'"
    and f: "found = (if hit then index # found' else found')"
    by (auto simp: and_then_def split: sum.splits)
  from Cons.IH [OF f'] ir hit f show ?case by simp
qed

lemma iterrows_where_total:
  "(\<And>j m. (j, m) \<in> set rows \<Longrightarrow> \<exists>hit. test m = Inr hit) \<Longrightarrow>
     \<exists>found. iterrows_where test rows = Inr found"
proof (induction rows)
  case Nil
  then show ?case by simp
next
  case (Cons ir rows)
  obtain index row where ir: "ir = (index, row)" by (cases ir)
  from Cons.prems [of index row] ir obtain hit where hit: "test row = Inr hit" by auto
  have "\<exists>found. iterrows_where test rows = Inr found"
  proof (rule Cons.IH)
    fix j m
    assume "(j, m) \<in> set rows"
    then have "(j, m) \<in> set (ir # rows)" by simp
    then show "\<exists>hit. test m = Inr hit" by (rule Cons.prems)
  qed
  then obtain found where "iterrows_where test rows = Inr found" by blast
  with ir hit show ?case by simp
qed

lemma any_person_total:
  "list_all (\<lambda>person. case person of Inl e \<Rightarrow> False | Inr name \<Rightarrow> True) persons \<Longrightarrow>
     \<exists>hit. any_person actor persons = Inr hit"
  by (induction persons) (auto split: sum.splits)

lemma any_actor_total: "cast_readable m \<Longrightarrow> \<exists>hit. any_actor actor m = Inr hit"
  by (auto simp: cast_readable_def any_actor_def any_person_total split: sum.splits)

lemma any_country_total: "production_countries m \<noteq> None \<Longrightarrow> \<exists>hit. any_country cs m = Inr hit"
  by (auto simp: any_country_def)

lemma or_else_total:
  "\<exists>hit. a = Inr hit \<Longrightarrow> \<exists>hit. b = Inr hit \<Longrightarrow> \<exists>hit. or_else a b = Inr hit"
  by (auto simp: or_else_def)

lemma or_else_first: "a = Inr True \<Longrightarrow> or_else a b = Inr True"
  by (simp add: or_else_def)

lemma or_else_True_iff:
  "or_else (Inr x) (Inr y) = Inr True \<longleftrightarrow> x \<or> y"
  by (simp add: or_else_def)

lemma py_slice_1: "py_slice xs 1 stop = take (nat ((if stop < 0 then max 0 (int (length xs) + stop) else min stop (int (length xs))) - min 1 (int (length xs)))) (drop 1 xs)"
  by (cases xs) (auto simp: py_slice_def Let_def)

lemma set_py_slice_1: "set (py_slice xs 1 stop) \<subseteq> set (tl xs)"
  by (metis py_slice_1 drop_Suc drop0 set_take_subset One_nat_def)

lemma length_py_slice_le: "0 \<le> k \<Longrightarrow> length (py_slice xs 1 (k + 1)) \<le> nat k"
  by (auto simp: py_slice_def Let_def)

lemma length_py_slice_1: "0 \<le> k \<Longrightarrow> length (py_slice xs 1 (k + 1)) = min (nat k) (length xs - 1)"
  by (auto simp: py_slice_def Let_def)

lemma ranked_distances_Inr:
  assumes "ranked_distances srt self i fm gs actor country = Inr d"
  shows "\<exists>row. distance_loc self i = Inr row
           \<and> d = filter (\<lambda>e. survives self fm gs actor country (fst e)) (srt row)"
proof -
  from assms obtain row where row: "distance_loc self i = Inr row"
    by (cases "distance_loc self i") (simp_all add: ranked_distances_def)
  define d1 where "d1 = (if truthy fm then filter (\<lambda>e. fst e \<in> set (elems fm)) (srt row) else srt row)"
  have d1: "d1 = filter (\<lambda>e. if truthy fm then fst e \<in> set (elems fm) else True) (srt row)"
    by (simp add: d1_def)
  from assms row obtain d2 d3 where
    d2: "(if truthy gs then keep_where self (any_genre (elems gs)) d1 else Inr d1) = Inr d2" and
    d3: "(if truthy actor then keep_where self (any_actor (elems actor)) d2 else Inr d2) = Inr d3" and
    d4: "(if truthy country then keep_where self (any_country (elems country)) d3 else Inr d3) = Inr d"
    unfolding ranked_distances_def d1_def
    by (auto simp: and_then_def split: sum.splits)
  have e2: "d2 = filter (\<lambda>e. if truthy gs then passes self (any_genre (elems gs)) (fst e) else True) d1"
    using d2 by (auto split: if_splits dest: keep_where_Inr)
  have e3: "d3 = filter (\<lambda>e. if truthy actor then passes self (any_actor (elems actor)) (fst e) else True) d2"
    using d3 by (auto split: if_splits dest: keep_where_Inr)
  have e4: "d = filter (\<lambda>e. if truthy country then passes self (any_country (elems country)) (fst e) else True) d3"
    using d4 by (auto split: if_splits dest: keep_where_Inr)
  have "d = filter (\<lambda>e. survives self fm gs actor country (fst e)) (srt row)"
    unfolding e4 e3 e2 d1 survives_def eligible_def
    by (simp add: conj_ac cong: filter_cong)
  with row show ?thesis by blast
qed

lemma keep_where_subset:
  assumes "fst ` set es \<subseteq> fst ` set (movies self)" "set ds \<subseteq> set es"
      and "\<And>j m. (j, m) \<in> set (movies self) \<Longrightarrow> \<exists>hit. test m = Inr hit"
  shows "keep_where self test ds = Inr (filter (\<lambda>e. passes self test (fst e)) ds)"
proof (rule keep_where_total)
  show "fst ` set ds \<subseteq> fst ` set (movies self)" using assms(1,2) by blast
  show "\<exists>hit. test m = Inr hit" if "(j, m) \<in> set (movies self)" for j m
    using that by (rule assms(3))
qed

lemma tests_readable:
  assumes "cells_readable self actor country" "(j, m) \<in> set (movies self)"
  shows "\<exists>hit. any_genre gs m = Inr hit"
    and "truthy actor \<Longrightarrow> \<exists>hit. any_actor cs m = Inr hit"
    and "truthy country \<Longrightarrow> \<exists>hit. any_country cs m = Inr hit"
proof -
  show "\<exists>hit. any_genre gs m = Inr hit" by (simp add: any_genre_def)
  show "\<exists>hit. any_actor cs m = Inr hit" if "truthy actor"
  proof -
    from assms that have "cast_readable m"
      by (auto simp: cells_readable_def list_all_iff)
    then show ?thesis by (rule any_actor_total)
  qed
  show "\<exists>hit. any_country cs m = Inr hit" if "truthy country"
  proof -
    from assms that have "production_countries m \<noteq> None"
      by (auto simp: cells_readable_def list_all_iff)
    then show ?thesis by (rule any_country_total)
  qed
qed

lemma ranked_distances_total:
  assumes row: "distance_loc self i = Inr row"
      and cat: "fst ` set (srt row) \<subseteq> fst ` set (movies self)"
      and cells: "cells_readable self actor country"
  shows "ranked_distances srt self i fm gs actor country
           = Inr (filter (\<lambda>e. survives self fm gs actor country (fst e)) (srt row))"
proof -
  define d1 where "d1 = (if truthy fm then filter (\<lambda>e. fst e \<in> set (elems fm)) (srt row) else srt row)"
  define d2 where "d2 = filter (\<lambda>e. if truthy gs then passes self (any_genre (elems gs)) (fst e) else True) d1"
  define d3 where "d3 = filter (\<lambda>e. if truthy actor then passes self (any_actor (elems actor)) (fst e) else True) d2"
  have s1: "set d1 \<subseteq> set (srt row)" by (auto simp: d1_def)
  have s2: "set d2 \<subseteq> set (srt row)" using s1 by (auto simp: d2_def)
  have s3: "set d3 \<subseteq> set (srt row)" using s2 by (auto simp: d3_def)
  have k1: "(if truthy gs then keep_where self (any_genre (elems gs)) d1 else Inr d1) = Inr d2"
    by (simp add: d2_def keep_where_subset [OF cat s1 tests_readable(1) [OF cells]])
  have k2: "(if truthy actor then keep_where self (any_actor (elems actor)) d2 else Inr d2) = Inr d3"
  proof (cases "truthy actor")
    case True
    have "keep_where self (any_actor (elems actor)) d2
            = Inr (filter (\<lambda>e. passes self (any_actor (elems actor)) (fst e)) d2)"
      using cat s2 by (rule keep_where_subset) (rule tests_readable(2) [OF cells _ True])
    with True show ?thesis by (simp add: d3_def)
  next
    case False
    then show ?thesis by (simp add: d3_def)
  qed
  have k3: "(if truthy country then keep_where self (any_country (elems country)) d3 else Inr d3)
      = Inr (filter (\<lambda>e. if truthy country then passes self (any_country (elems country)) (fst e) else True) d3)"
  proof (cases "truthy country")
    case True
    have "keep_where self (any_country (elems country)) d3
            = Inr (filter (\<lambda>e. passes self (any_country (elems country)) (fst e)) d3)"
      using cat s3 by (rule keep_where_subset) (rule tests_readable(3) [OF cells _ True])
    with True show ?thesis by simp
  next
    case False
    then show ?thesis by simp
  qed
  have "ranked_distances srt self i fm gs actor country
      = Inr (filter (\<lambda>e. if truthy country then passes self (any_country (elems country)) (fst e) else True) d3)"
    unfolding ranked_distances_def row and_then_Inr d1_def [symmetric] k1 k2 k3 ..
  then obtain d where d: "ranked_distances srt self i fm gs actor country = Inr d" by blast
  from ranked_distances_Inr [OF d] row d show ?thesis by simp
qed

lemma passes_in_filter:
  assumes "passes self test i"
      and "iterrows_where test' (movies self) = Inr found"
      and "\<And>m. test m = Inr True \<Longrightarrow> test' m = Inr True"
  shows "i \<in> set found"
proof -
  from assms(1) obtain m where m: "map_of (movies self) i = Some m" and t: "test m = Inr True"
    by (auto simp: passes_def split: option.splits)
  from m have "(i, m) \<in> set (movies self)" by (rule map_of_SomeD)
  moreover from t have "test' m = Inr True" by (rule assms(3))
  ultimately have "i \<in> set (map fst (filter (\<lambda>(index, row). test' row = Inr True) (movies self)))"
    by force
  with iterrows_where_Inr [OF assms(2)] show ?thesis by simp
qed

lemma eligible_in_filtered:
  assumes el: "eligible self gs actor country i"
      and fm: "filtered_movies_of self gs actor country = Inr (Some found)"
  shows "i \<in> set found"
proof -
  consider (gc) "truthy gs" "truthy country"
    | (ga) "truthy gs" "\<not> truthy country" "truthy actor"
    | (g) "truthy gs" "\<not> truthy country" "\<not> truthy actor"
    | (a) "\<not> truthy gs" "truthy actor"
    | (c) "\<not> truthy gs" "\<not> truthy actor" "truthy country"
    | (n) "\<not> truthy gs" "\<not> truthy actor" "\<not> truthy country"
    by blast
  then show ?thesis
  proof cases
    case gc
    with fm have L: "filter_movies_by_genre_and_country self (elems gs) (elems country) = Inr found"
      by (auto simp: filtered_movies_of_def and_then_def split: sum.splits)
    from el gc have "passes self (any_genre (elems gs)) i" by (simp add: eligible_def)
    then show ?thesis
      using L unfolding filter_movies_by_genre_and_country_def
      by (rule passes_in_filter) (rule or_else_first)
  next
    case ga
    with fm have L: "filter_movies_by_genre_and_actor self (elems gs) (elems actor) = Inr found"
      by (auto simp: filtered_movies_of_def and_then_def split: sum.splits)
    from el ga have "passes self (any_genre (elems gs)) i" by (simp add: eligible_def)
    then show ?thesis
      using L unfolding filter_movies_by_genre_and_actor_def
      by (rule passes_in_filter) (rule or_else_first)
  next
    case g
    with fm have L: "filter_movies_by_genre self (elems gs) = Inr found"
      by (auto simp: filtered_movies_of_def and_then_def split: sum.splits)
    from el g have "passes self (any_genre (elems gs)) i" by (simp add: eligible_def)
    then show ?thesis
      using L unfolding filter_movies_by_genre_def by (rule passes_in_filter)
  next
    case a
    with fm have L: "filter_movies_by_actor self (elems actor) = Inr found"
      by (auto simp: filtered_movies_of_def and_then_def split: sum.splits)
    from el a have "passes self (any_actor (elems actor)) i" by (simp add: eligible_def)
    then show ?thesis
      using L unfolding filter_movies_by_actor_def by (rule passes_in_filter)
  next
    case c
    with fm have L: "filter_movies_by_country self (elems country) = Inr found"
      by (auto simp: filtered_movies_of_def and_then_def split: sum.splits)
    from el c have "passes self (any_country (elems country)) i" by (simp add: eligible_def)
    then show ?thesis
      using L unfolding filter_movies_by_country_def by (rule passes_in_filter)
  next
    case n
    with fm show ?thesis by (simp add: filtered_movies_of_def)
  qed
qed

lemma survives_filtered_movies_of:
  assumes "filtered_movies_of self gs actor country = Inr fm"
  shows "survives self fm gs actor country i = eligible self gs actor country i"
proof (cases fm)
  case None
  then show ?thesis by (simp add: survives_def truthy_def)
next
  case (Some found)
  with assms eligible_in_filtered [of self gs actor country i found] show ?thesis
    by (auto simp: survives_def elems_def)
qed

lemma filtered_movies_of_total:
  assumes cells: "cells_readable self actor country"
  shows "\<exists>fm. filtered_movies_of self gs actor country = Inr fm"
proof -
  have g: "\<exists>hit. any_genre (elems gs) m = Inr hit" for m
    by (simp add: any_genre_def)
  have a: "\<exists>hit. any_actor (elems actor) m = Inr hit"
    if "truthy actor" "(j, m) \<in> set (movies self)" for j m
    using tests_readable(2) [OF cells that(2) that(1)] .
  have c: "\<exists>hit. any_country (elems country) m = Inr hit"
    if "truthy country" "(j, m) \<in> set (movies self)" for j m
    using tests_readable(3) [OF cells that(2) that(1)] .
  consider (gc) "truthy gs" "truthy country"
    | (ga) "truthy gs" "\<not> truthy country" "truthy actor"
    | (g) "truthy gs" "\<not> truthy country" "\<not> truthy actor"
    | (a) "\<not> truthy gs" "truthy actor"
    | (c) "\<not> truthy gs" "\<not> truthy actor" "truthy country"
    | (n) "\<not> truthy gs" "\<not> truthy actor" "\<not> truthy country"
    by blast
  then show ?thesis
  proof cases
    case gc
    have "\<exists>found. iterrows_where (\<lambda>row. or_else (any_genre (elems gs) row)
             (any_country (elems country) row)) (movies self) = Inr found"
      by (rule iterrows_where_total) (intro or_else_total g c gc)
    with gc show ?thesis
      by (auto simp: filtered_movies_of_def filter_movies_by_genre_and_country_def)
  next
    case ga
    have "\<exists>found. iterrows_where (\<lambda>row. or_else (any_genre (elems gs) row)
             (any_actor (elems actor) row)) (movies self) = Inr found"
      by (rule iterrows_where_total) (intro or_else_total g a ga)
    with ga show ?thesis
      by (auto simp: filtered_movies_of_def filter_movies_by_genre_and_actor_def)
  next
    case g
    have "\<exists>found. iterrows_where (any_genre (elems gs)) (movies self) = Inr found"
      by (rule iterrows_where_total) (simp add: any_genre_def)
    with g show ?thesis
      by (auto simp: filtered_movies_of_def filter_movies_by_genre_def)
  next
    case a
    have "\<exists>found. iterrows_where (any_actor (elems actor)) (movies self) = Inr found"
      by (rule iterrows_where_total) (rule tests_readable(2) [OF cells _ a(2)])
    with a show ?thesis
      by (auto simp: filtered_movies_of_def filter_movies_by_actor_def)
  next
    case c
    have "\<exists>found. iterrows_where (any_country (elems country)) (movies self) = Inr found"
      by (rule iterrows_where_total) (rule tests_readable(3) [OF cells _ c(3)])
    with c show ?thesis
      by (auto simp: filtered_movies_of_def filter_movies_by_country_def)
  next
    case n
    then show ?thesis by (simp add: filtered_movies_of_def)
  qed
qed

section \<open>Running the model\<close>

lemmas run_defs =
  recommendation_def update_recommendations_def title_index_def filtered_movies_of_def
  truthy_def elems_def get_top_k_movies_def ranked_distances_def distance_loc_def
  stable_sort_values_def py_slice_def movies_loc_def mk_movie_def any_genre_def any_actor_def
  any_country_def filter_movies_by_genre_def filter_movies_by_actor_def
  filter_movies_by_country_def filter_movies_by_genre_and_actor_def
  filter_movies_by_genre_and_country_def or_else_def

lemma scenario_run:
  "recommendation stable_sort_values scenario ''A'' 2 None None None = Inr [''C'', ''B'']"
  by (simp add: run_defs scenario_def)

section \<open>The two entry points\<close>

text \<open>
  C10.  For all arguments, \<^verbatim>\<open>update_recommendations\<close> returns exactly what
  \<^verbatim>\<open>recommendation\<close> returns on the same arguments, errors included.
\<close>

theorem update_recommendations_eq:
  "update_recommendations sort_values self t top_k gs actor country
     = recommendation sort_values self t top_k gs actor country"
  by (simp add: update_recommendations_def)

text \<open>C10 on the scenario of the specification.\<close>

theorem update_recommendations_eq_witness:
  "update_recommendations stable_sort_values scenario ''A'' 2 None None None = Inr [''C'', ''B'']"
  using update_recommendations_eq [of stable_sort_values scenario "''A''" 2 None None None]
  by (simp add: scenario_run)

section \<open>Title resolution\<close>

lemma title_index_first:
  assumes "movies self = pre @ (i, m) # post" "title m = t" "list_all (\<lambda>(j, r). title r \<noteq> t) pre"
  shows "filter (\<lambda>(index, row). title row = t) (movies self)
           = (i, m) # filter (\<lambda>(index, row). title row = t) post"
proof -
  have "filter (\<lambda>(index, row). title row = t) pre = []"
    using assms(3) by (induction pre) auto
  with assms(1,2) show ?thesis by simp
qed

lemma title_index_none:
  assumes "list_all (\<lambda>(j, r). title r \<noteq> t) xs"
  shows "filter (\<lambda>(index, row). title row = t) xs = []"
  using assms by (induction xs) auto

text \<open>
  C6.  Title resolution returns the identifier of the first row, in load order, whose
  title equals the query, whatever follows it (also further rows with the same title);
  when no row has the title it fails with \<open>IndexError\<close>, and \<^verbatim>\<open>recommendation\<close> fails
  with the same error for every other argument.
\<close>

theorem title_index_first_match:
  "(movies self = pre @ (i, m) # post \<and> title m = t \<and> list_all (\<lambda>(j, r). title r \<noteq> t) pre
      \<longrightarrow> title_index self t = Inr i)
   \<and> (list_all (\<lambda>(j, r). title r \<noteq> t) (movies self)
      \<longrightarrow> title_index self t = Inl IndexError
        \<and> recommendation sort_values self t top_k gs actor country = Inl IndexError)"
  by (auto simp: title_index_def recommendation_def title_index_first title_index_none)

text \<open>
  C6 on a catalog with two rows titled ``A'' (identifiers 5 and 1, in that order) and
  no row titled ``Z''.
\<close>

theorem title_index_first_match_witness:
  "title_index remake ''A'' = Inr 5
   \<and> title_index remake ''Z'' = Inl IndexError
   \<and> recommendation stable_sort_values remake ''Z'' 7 None None None = Inl IndexError"
  using title_index_first_match [where self = remake and t = "''A''" and i = 5
      and pre = "[(2, mk_movie ''B'' [''Action''] [] ''[]'' None)]"
      and m = "mk_movie ''A'' [''Comedy''] [] ''[]'' None"
      and post = "[(1, mk_movie ''A'' [''Drama''] [] ''[]'' None)]"]
    title_index_first_match [where self = remake and t = "''Z''" and sort_values = stable_sort_values
      and top_k = 7 and gs = None and actor = None and country = None]
  by (simp add: remake_def mk_movie_def)

section \<open>The synopsis accessor\<close>

text \<open>
  C8, as the code has it.  When no row has the title, \<^verbatim>\<open>get_overview\<close> returns the empty
  string; otherwise it returns the stored synopsis of the first row with the title:
  \<open>None\<close> when the cell is null, the text unchanged when it is present.
\<close>

theorem get_overview_cases:
  "(list_all (\<lambda>(j, r). title r \<noteq> t) (movies self) \<longrightarrow> get_overview self t = Some [])
   \<and> (movies self = pre @ (i, m) # post \<and> title m = t \<and> list_all (\<lambda>(j, r). title r \<noteq> t) pre
      \<longrightarrow> get_overview self t = overview m)"
  by (auto simp: get_overview_def title_index_first title_index_none split: option.splits)

text \<open>
  C8 as stated fails: for a title that is not in the catalog the result is the empty
  string, not the absent value.
\<close>

theorem get_overview_not_found_counterexample:
  "list_all (\<lambda>(j, r). title r \<noteq> ''Z'') (movies scenario) \<and> get_overview scenario ''Z'' = Some ''''
   \<and> get_overview scenario ''Z'' \<noteq> None"
  by (simp add: get_overview_def scenario_def mk_movie_def)

text \<open>The three cases of C8 on the scenario: title not found, null synopsis, synopsis present.\<close>

theorem get_overview_cases_witness:
  "get_overview scenario ''Z'' = Some '''' \<and> get_overview scenario ''B'' = None
   \<and> get_overview scenario ''C'' = Some ''About C''"
  using get_overview_cases [where self = scenario and t = "''Z''"]
    get_overview_cases [where self = scenario and t = "''B''" and i = 2
      and pre = "[(1, mk_movie ''A'' [''Comedy''] [''Ann''] ''[{'name': 'France'}]'' (Some ''About A''))]"
      and m = "mk_movie ''B'' [''Action''] [''Bob''] ''[{'name': 'Niger'}]'' None"
      and post = "[(3, mk_movie ''C'' [''Comedy''] [''Cy''] ''[{'name': 'Nigeria'}]'' (Some ''About C''))]"]
    get_overview_cases [where self = scenario and t = "''C''" and i = 3
      and pre = "[(1, mk_movie ''A'' [''Comedy''] [''Ann''] ''[{'name': 'France'}]'' (Some ''About A'')),
                  (2, mk_movie ''B'' [''Action''] [''Bob''] ''[{'name': 'Niger'}]'' None)]"
      and m = "mk_movie ''C'' [''Comedy''] [''Cy''] ''[{'name': 'Nigeria'}]'' (Some ''About C'')"
      and post = "[]"]
  by (simp add: scenario_def mk_movie_def)

section \<open>What the ranking holds\<close>

lemma py_slice_map: "py_slice (map f xs) a b = map f (py_slice xs a b)"
  by (simp add: py_slice_def Let_def take_map drop_map)

lemma sorts_descending_set: "sorts_descending srt \<Longrightarrow> set (srt xs) = set xs"
  by (metis sorts_descending_def mset_eq_setD)

lemma sorts_descending_sorted:
  "sorts_descending srt \<Longrightarrow> sorted_wrt (\<lambda>a b. snd b \<le> snd a) (srt xs)"
  by (simp add: sorts_descending_def)

lemma sorts_descending_distinct:
  assumes "sorts_descending srt" "distinct (map fst xs)"
  shows "distinct (map fst (srt xs))"
proof -
  have "mset (srt xs) = mset xs"
    using assms(1) by (simp add: sorts_descending_def)
  then have "image_mset fst (mset (srt xs)) = image_mset fst (mset xs)"
    by simp
  then have "mset (map fst (srt xs)) = mset (map fst xs)"
    by simp
  then show ?thesis
    using assms(2) by (metis mset_eq_imp_distinct_iff)
qed

lemma distance_loc_distinct:
  "distance_loc self i = Inr row \<Longrightarrow> distinct (distance_columns self) \<Longrightarrow> distinct (map fst row)"
  by (auto simp: distance_loc_def map_fst_zip_take split: option.splits)

lemma recommendation_Inr:
  assumes "recommendation srt self t k gs actor country = Inr ts"
  shows "\<exists>i row d. title_index self t = Inr i \<and> distance_loc self i = Inr row
           \<and> d = filter (\<lambda>e. eligible self gs actor country (fst e)) (srt row)
           \<and> movies_loc_titles self (map fst (py_slice d 1 (k + 1))) = Inr ts"
proof -
  from assms obtain i where i: "title_index self t = Inr i"
    by (cases "title_index self t") (simp_all add: recommendation_def)
  from assms i obtain fm where fm: "filtered_movies_of self gs actor country = Inr fm"
    by (cases "filtered_movies_of self gs actor country") (simp_all add: recommendation_def)
  from assms i fm obtain ids where ids: "get_top_k_movies srt self i k fm gs actor country = Inr ids"
    and ts: "movies_loc_titles self ids = Inr ts"
    by (cases "get_top_k_movies srt self i k fm gs actor country") (simp_all add: recommendation_def)
  from ids obtain d where d: "ranked_distances srt self i fm gs actor country = Inr d"
    and ids_eq: "ids = py_slice (map fst d) 1 (k + 1)"
    by (cases "ranked_distances srt self i fm gs actor country") (auto simp: get_top_k_movies_def)
  from ranked_distances_Inr [OF d] obtain row where row: "distance_loc self i = Inr row"
    and d_eq: "d = filter (\<lambda>e. eligible self gs actor country (fst e)) (srt row)"
    by (auto simp: survives_filtered_movies_of [OF fm])
  show ?thesis
    using i row d_eq ts ids_eq by (simp add: py_slice_map)
qed

lemma movies_loc_titles_mem:
  "movies_loc_titles self ids = Inr ts \<Longrightarrow> t \<in> set ts \<Longrightarrow>
     \<exists>j m. j \<in> set ids \<and> (j, m) \<in> set (movies self) \<and> title m = t"
proof (induction ids arbitrary: ts)
  case Nil
  then show ?case by simp
next
  case (Cons j ids)
  from Cons.prems(1) obtain m ts' where m: "map_of (movies self) j = Some m"
    and ts': "movies_loc_titles self ids = Inr ts'" and ts: "ts = title m # ts'"
    by (auto simp: movies_loc_def and_then_def split: option.splits sum.splits)
  from m have jm: "(j, m) \<in> set (movies self)" by (rule map_of_SomeD)
  show ?case
  proof (cases "t = title m")
    case True
    with jm show ?thesis by auto
  next
    case False
    with Cons.prems(2) ts have "t \<in> set ts'" by simp
    from Cons.IH [OF ts' this] show ?thesis by auto
  qed
qed

lemma movies_loc_titles_length:
  "movies_loc_titles self ids = Inr ts \<Longrightarrow> length ts = length ids"
proof (induction ids arbitrary: ts)
  case Nil
  then show ?case by simp
next
  case (Cons j ids)
  from Cons.prems(1) obtain t0 ts' where
    ts': "movies_loc_titles self ids = Inr ts'" and ts: "ts = t0 # ts'"
    by (auto simp: movies_loc_def and_then_def split: option.splits sum.splits)
  from Cons.IH [OF ts'] ts show ?case by simp
qed

lemma reference_only_first:
  assumes srt: "sorted_wrt (\<lambda>a b. snd b \<le> snd a) xs"
      and dist: "distinct (map fst xs)"
      and top: "\<And>j s. (j, s) \<in> set xs \<Longrightarrow> j = i \<and> s = s0 \<or> j \<noteq> i \<and> s < (s0::real)"
  shows "i \<notin> fst ` set (tl xs)"
proof (cases xs)
  case Nil
  then show ?thesis by simp
next
  case (Cons e rest)
  show ?thesis
  proof
    assume "i \<in> fst ` set (tl xs)"
    then obtain s where s: "(i, s) \<in> set rest" using Cons by auto
    with top Cons have s0: "s = s0" by auto
    from dist Cons have "fst e \<notin> fst ` set rest" by simp
    moreover from s have "i \<in> fst ` set rest" by force
    ultimately have "fst e \<noteq> i" by blast
    moreover have "(fst e, snd e) \<in> set xs" using Cons by simp
    ultimately have "snd e < s0" using top [of "fst e" "snd e"] by blast
    moreover from srt Cons s have "s \<le> snd e" by auto
    ultimately show False using s0 by simp
  qed
qed

section \<open>Exclusion of the reference item\<close>

text \<open>
  C1, as the code has it.  The code removes position 0 of the filtered ranking, not the
  reference identifier.  When the column labels of the matrix are distinct, the title
  of the reference item is unique in the catalog and, in the row of the reference
  item, its own score is strictly greater than every other score, the result of
  \<^verbatim>\<open>recommendation\<close> never contains the reference title, for every \<open>top_k\<close> and all
  filters.
\<close>

theorem recommendation_excludes_reference:
  assumes "sorts_descending sort_values"
      and "distinct (distance_columns self)"
      and "title_index self t = Inr i"
      and "list_all (\<lambda>(j, r). title r \<noteq> t \<or> j = i) (movies self)"
      and "distance_loc self i = Inr row"
      and "map_of row i = Some s0"
      and "list_all (\<lambda>(j, s). j = i \<or> s < s0) row"
      and "recommendation sort_values self t top_k gs actor country = Inr ts"
  shows "t \<notin> set ts"
proof
  assume t: "t \<in> set ts"
  from recommendation_Inr [OF assms(8)] assms(3,5)
  obtain d where d: "d = filter (\<lambda>e. eligible self gs actor country (fst e)) (sort_values row)"
    and ts: "movies_loc_titles self (map fst (py_slice d 1 (top_k + 1))) = Inr ts"
    by auto
  from movies_loc_titles_mem [OF ts t] obtain j m where
    j: "j \<in> set (map fst (py_slice d 1 (top_k + 1)))" and m: "(j, m) \<in> set (movies self)" "title m = t"
    by blast
  from assms(4) m(1) have "title m \<noteq> t \<or> j = i"
    unfolding list_all_iff by blast
  with m(2) have "j = i" by simp
  with j have "i \<in> fst ` set (py_slice d 1 (top_k + 1))" by simp
  with set_py_slice_1 [of d "top_k + 1"] have in_tl: "i \<in> fst ` set (tl d)" by blast
  have dist_row: "distinct (map fst row)"
    using assms(5,2) by (rule distance_loc_distinct)
  have "sorted_wrt (\<lambda>a b. snd b \<le> snd a) d"
    unfolding d by (rule sorted_wrt_filter) (rule sorts_descending_sorted [OF assms(1)])
  moreover have "distinct (map fst d)"
    unfolding d
    by (rule distinct_map_filter) (rule sorts_descending_distinct [OF assms(1) dist_row])
  moreover have "j = i \<and> s = s0 \<or> j \<noteq> i \<and> s < s0" if "(j, s) \<in> set d" for j s
  proof -
    from that have in_row: "(j, s) \<in> set row"
      by (simp add: d sorts_descending_set [OF assms(1)])
    show ?thesis
    proof (cases "j = i")
      case True
      with in_row dist_row have "map_of row i = Some s"
        by (simp add: map_of_eq_Some_iff)
      with assms(6) True show ?thesis by simp
    next
      case False
      from assms(7) in_row have "j = i \<or> s < s0"
        unfolding list_all_iff by blast
      with False show ?thesis by simp
    qed
  qed
  ultimately have "i \<notin> fst ` set (tl d)" by (rule reference_only_first)
  with in_tl show False by contradiction
qed

text \<open>
  C1 as stated fails: the reference is not dropped unconditionally.  In the row of A
  the score of B is higher than the score of A itself, so the ranking is B, A; position 0
  (B) is dropped and A is recommended for itself.
\<close>

theorem recommendation_includes_reference_counterexample:
  "title_index upstaged ''A'' = Inr 1
   \<and> distance_loc upstaged 1 = Inr [(1, 0.5), (2, 0.9)]
   \<and> get_top_k_movies stable_sort_values upstaged 1 5 None None None None = Inr [1]
   \<and> recommendation stable_sort_values upstaged ''A'' 5 None None None = Inr [''A'']"
  by (simp add: run_defs upstaged_def)

text \<open>C1 on the scenario of the specification.\<close>

theorem recommendation_excludes_reference_witness:
  "sorts_descending stable_sort_values
   \<and> distinct (distance_columns scenario)
   \<and> title_index scenario ''A'' = Inr 1
   \<and> list_all (\<lambda>(j, r). title r \<noteq> ''A'' \<or> j = 1) (movies scenario)
   \<and> distance_loc scenario 1 = Inr [(1, 1), (2, 0.2), (3, 0.8)]
   \<and> list_all (\<lambda>(j, s). j = 1 \<or> s < 1) [(1, 1), (2, 0.2), (3, 0.8 :: real)]
   \<and> recommendation stable_sort_values scenario ''A'' 2 None None None = Inr [''C'', ''B'']
   \<and> ''A'' \<notin> set [''C'', ''B'']"
  using recommendation_excludes_reference [of stable_sort_values scenario "''A''" 1
      "[(1, 1), (2, 0.2), (3, 0.8)]" 1 2 None None None "[''C'', ''B'']"]
  by (simp add: stable_sort_values_sorts scenario_run)
    (simp add: scenario_def mk_movie_def title_index_def distance_loc_def)

lemma py_slice_pairs_sorted:
  "sorted_wrt P xs \<Longrightarrow> sorted_wrt P (py_slice xs a b)"
  by (simp add: py_slice_def Let_def sorted_wrt_take sorted_wrt_drop)

lemma set_py_slice: "set (py_slice xs a b) \<subseteq> set xs"
  unfolding py_slice_def Let_def
  by (meson set_take_subset set_drop_subset subset_trans)

section \<open>Ordering of the result\<close>

text \<open>
  C3, as the code has it.  The titles returned by \<^verbatim>\<open>recommendation\<close> are those of
  entries of the reference item's row, in an order in which the scores are
  non-increasing.  The order among equal scores is whatever the sort leaves; the code
  does not compare identifiers.
\<close>

theorem recommendation_scores_descend:
  assumes "sorts_descending sort_values"
      and "recommendation sort_values self t top_k gs actor country = Inr ts"
  shows "\<exists>i row ps. title_index self t = Inr i \<and> distance_loc self i = Inr row
           \<and> set ps \<subseteq> set row
           \<and> sorted_wrt (\<lambda>a b. snd b \<le> snd a) ps
           \<and> movies_loc_titles self (map fst ps) = Inr ts"
proof -
  from recommendation_Inr [OF assms(2)] obtain i row d where
    i: "title_index self t = Inr i" and row: "distance_loc self i = Inr row" and
    d: "d = filter (\<lambda>e. eligible self gs actor country (fst e)) (sort_values row)" and
    ts: "movies_loc_titles self (map fst (py_slice d 1 (top_k + 1))) = Inr ts"
    by blast
  let ?ps = "py_slice d 1 (top_k + 1)"
  have "sorted_wrt (\<lambda>a b. snd b \<le> snd a) d"
    unfolding d by (rule sorted_wrt_filter) (rule sorts_descending_sorted [OF assms(1)])
  then have "sorted_wrt (\<lambda>a b. snd b \<le> snd a) ?ps"
    by (rule py_slice_pairs_sorted)
  moreover have "set d \<subseteq> set row"
    by (auto simp: d sorts_descending_set [OF assms(1)])
  with set_py_slice [of d 1 "top_k + 1"] have "set ?ps \<subseteq> set row" by blast
  ultimately show ?thesis using i row ts by blast
qed

lemma tied_run:
  "recommendation stable_sort_values tied ''A'' 2 None None None = Inr [''C'', ''B'']"
  by (simp add: run_defs tied_def)

text \<open>
  C3 as stated fails: B (identifier 2) and C (identifier 3) have the same score 0.5 in
  the row of A, and C is returned before B.
\<close>

theorem recommendation_tie_order_counterexample:
  "distance_loc tied 1 = Inr [(1, 1), (3, 0.5), (2, 0.5)]
   \<and> get_top_k_movies stable_sort_values tied 1 2 None None None None = Inr [3, 2]
   \<and> recommendation stable_sort_values tied ''A'' 2 None None None = Inr [''C'', ''B'']"
  by (simp add: run_defs tied_def)

text \<open>C3 on the catalog with the tie.\<close>

theorem recommendation_scores_descend_witness:
  "sorts_descending stable_sort_values
   \<and> recommendation stable_sort_values tied ''A'' 2 None None None = Inr [''C'', ''B'']
   \<and> (\<exists>i row ps. title_index tied ''A'' = Inr i \<and> distance_loc tied i = Inr row
           \<and> set ps \<subseteq> set row
           \<and> sorted_wrt (\<lambda>a b. snd b \<le> snd a) ps
           \<and> movies_loc_titles tied (map fst ps) = Inr [''C'', ''B''])"
  using recommendation_scores_descend [of stable_sort_values tied "''A''" 2 None None None
      "[''C'', ''B'']"]
  by (simp add: stable_sort_values_sorts tied_run)

section \<open>Length of the result\<close>

text \<open>
  C4 at the filtered query of the specification's scenario,
  \<^verbatim>\<open>recommendation("A", 2, genres={"Action"})\<close>: B is the one eligible candidate
  (it is not the reference item and passes the filter), so the claim gives length
  \<open>min 2 1 = 1\<close>; the code returns the empty list, because the reference item A does
  not pass the filter and position 0 of the filtered ranking is B.
\<close>

theorem recommendation_drops_best_match:
  "recommendation stable_sort_values scenario ''A'' 2 (Some [''Action'']) None None = Inr []
   \<and> filter (\<lambda>j. j \<noteq> 1 \<and> eligible scenario (Some [''Action'']) None None j)
        (distance_columns scenario) = [2]"
  by (simp add: run_defs scenario_def eligible_def passes_def)

text \<open>The bound that does hold: at most \<open>top_k\<close> titles are returned for \<open>top_k \<ge> 0\<close>.\<close>

lemma recommendation_length_le:
  assumes "recommendation sort_values self t top_k gs actor country = Inr ts" "0 \<le> top_k"
  shows "length ts \<le> nat top_k"
proof -
  from recommendation_Inr [OF assms(1)] obtain d :: "(int \<times> real) list" where
    "movies_loc_titles self (map fst (py_slice d 1 (top_k + 1))) = Inr ts"
    by blast
  from movies_loc_titles_length [OF this] length_py_slice_le [OF assms(2), of d]
  show ?thesis by simp
qed

text \<open>
  The exact length for \<open>top_k \<ge> 0\<close>: one less than the filtered ranking holds, capped
  by \<open>top_k\<close>.  The filtered ranking holds the reference item only when it passes the
  filters.
\<close>

lemma recommendation_length:
  assumes "recommendation sort_values self t top_k gs actor country = Inr ts" "0 \<le> top_k"
      and "title_index self t = Inr i" "distance_loc self i = Inr row"
  shows "length ts = min (nat top_k)
           (length (filter (\<lambda>e. eligible self gs actor country (fst e)) (sort_values row)) - 1)"
proof -
  from recommendation_Inr [OF assms(1)] assms(3,4)
  have "movies_loc_titles self (map fst (py_slice
          (filter (\<lambda>e. eligible self gs actor country (fst e)) (sort_values row)) 1 (top_k + 1))) = Inr ts"
    by auto
  from movies_loc_titles_length [OF this] show ?thesis
    by (simp add: length_py_slice_1 [OF assms(2)])
qed

lemma ranked_candidates:
  assumes row: "distance_loc self i = Inr row"
      and srt: "sorts_descending sort_values"
      and cat: "set (map fst row) \<subseteq> set (map fst (movies self))"
      and cells: "cells_readable self actor country"
  shows "\<exists>fm. filtered_movies_of self gs actor country = Inr fm
           \<and> ranked_distances sort_values self i fm gs actor country
               = Inr (filter (\<lambda>e. eligible self gs actor country (fst e)) (sort_values row))"
proof -
  from filtered_movies_of_total [OF cells] obtain fm where
    fm: "filtered_movies_of self gs actor country = Inr fm" by blast
  from cat have "fst ` set (sort_values row) \<subseteq> fst ` set (movies self)"
    by (simp add: sorts_descending_set [OF srt])
  then have "ranked_distances sort_values self i fm gs actor country
      = Inr (filter (\<lambda>e. survives self fm gs actor country (fst e)) (sort_values row))"
    using cells by (rule ranked_distances_total [OF row])
  with fm show ?thesis
    by (simp add: survives_filtered_movies_of [OF fm])
qed

lemma py_slice_1_empty: "top_k = 0 \<or> top_k = - 1 \<Longrightarrow> py_slice xs 1 (top_k + 1) = []"
  by (auto simp: py_slice_def Let_def)

lemma scenario_cells_readable: "cells_readable scenario actor country"
  by (simp add: cells_readable_def cast_readable_def scenario_def mk_movie_def)

section \<open>Non-positive \<open>top_k\<close>\<close>




text \<open>
  With a filter, a cell that cannot be read makes the call raise also for \<open>top_k = 0\<close>:
  the rows are tested before the slice is taken.
\<close>

lemma gappy_country_raises:
  "recommendation stable_sort_values gappy ''A'' 0 None None (Some [''France'']) = Inl TypeError"
  by (simp add: run_defs gappy_def)

lemma gappy_actor_raises:
  "recommendation stable_sort_values gappy ''A'' 0 None (Some [''Ann'']) None = Inl TypeError"
  by (simp add: run_defs gappy_def)

section \<open>Genre and country together\<close>

lemma or_else_hit:
  assumes "\<exists>x. a = Inr x" "\<exists>y. b = Inr y"
  shows "or_else a b = Inr True \<longleftrightarrow> a = Inr True \<or> b = Inr True"
proof -
  from assms obtain x y where "a = Inr x" "b = Inr y" by blast
  then show ?thesis by (cases x) (simp_all add: or_else_def)
qed

lemma scenario_union:
  "filter_movies_by_genre_and_country scenario [''Comedy''] [''Niger''] = Inr [1, 2, 3]"
  by (simp add: run_defs scenario_def)

lemma scenario_all_three:
  "ranked_distances stable_sort_values scenario 1 (Some [1, 2, 3])
     (Some [''Comedy'']) (Some [''Bob'']) (Some [''Niger'']) = Inr []"
  "ranked_distances stable_sort_values scenario 1 (Some [1, 2, 3])
     (Some [''Comedy'']) (Some []) (Some [''Niger'']) = Inr [(3, 0.8)]"
  by (simp_all add: run_defs scenario_def)




section \<open>Parsing\<close>

lemma item_names_records:
  "list_all2 (\<lambda>item n. \<exists>kvs. item = PyDict kvs \<and> map_of kvs (PyStr ''name'') = Some n) items ns
     \<Longrightarrow> item_names items = Inr ns"
  by (induction items ns rule: list_all2_induct) auto

text \<open>
  C7, as the code has it.  \<^verbatim>\<open>parse(None)\<close> is the empty list; an input that
  \<^verbatim>\<open>ast.literal_eval\<close> rejects with \<open>ValueError\<close> or \<open>SyntaxError\<close> gives the empty list;
  an input that evaluates to a list of records, each with a \<^verbatim>\<open>'name'\<close> key, gives the
  names in order, as for \<^verbatim>\<open>"[{'name': 'Comedy'}, {'name': 'Action'}]"\<close>.
\<close>

theorem parse_cases:
  "parse literal_eval None = Inr []
   \<and> (literal_eval s = Inl ValueError \<or> literal_eval s = Inl SyntaxError
        \<longrightarrow> parse literal_eval (Some s) = Inr [])
   \<and> (literal_eval s = Inr (PyList items)
        \<and> list_all2 (\<lambda>item n. \<exists>kvs. item = PyDict kvs \<and> map_of kvs (PyStr ''name'') = Some n) items ns
        \<longrightarrow> parse literal_eval (Some s) = Inr ns)"
  by (auto simp: parse_def item_names_records)

text \<open>
  C7 as stated fails: a string that is a well-formed literal of another shape is not
  caught.  A record without \<^verbatim>\<open>'name'\<close> raises \<open>KeyError\<close>, and a literal that is not
  iterable raises \<open>TypeError\<close>.
\<close>

theorem parse_wrong_shape_counterexample:
  "parse literal_eval_sample (Some ''[{'id': 35}]'') = Inl KeyError
   \<and> parse literal_eval_sample (Some ''5'') = Inl TypeError"
  by (simp add: parse_def literal_eval_sample_def)

text \<open>C7 on \<^verbatim>\<open>None\<close>, on a truncated string and on the genre list of the specification.\<close>

theorem parse_cases_witness:
  "parse literal_eval_sample None = Inr []
   \<and> literal_eval_sample ''[{'name': 'Comedy'}'' = Inl SyntaxError
   \<and> parse literal_eval_sample (Some ''[{'name': 'Comedy'}'') = Inr []
   \<and> literal_eval_sample ''[{'name': 'Comedy'}, {'name': 'Action'}]''
        = Inr (PyList [PyDict [(PyStr ''name'', PyStr ''Comedy'')],
                       PyDict [(PyStr ''name'', PyStr ''Action'')]])
   \<and> parse literal_eval_sample (Some ''[{'name': 'Comedy'}, {'name': 'Action'}]'')
        = Inr [PyStr ''Comedy'', PyStr ''Action'']"
proof -
  have h1: "literal_eval_sample ''[{'name': 'Comedy'}'' = Inl SyntaxError"
    by (simp add: literal_eval_sample_def)
  have h2: "literal_eval_sample ''[{'name': 'Comedy'}, {'name': 'Action'}]''
        = Inr (PyList [PyDict [(PyStr ''name'', PyStr ''Comedy'')],
                       PyDict [(PyStr ''name'', PyStr ''Action'')]])"
    by (simp add: literal_eval_sample_def)
  have h3: "list_all2 (\<lambda>item n. \<exists>kvs. item = PyDict kvs \<and> map_of kvs (PyStr ''name'') = Some n)
              [PyDict [(PyStr ''name'', PyStr ''Comedy'')], PyDict [(PyStr ''name'', PyStr ''Action'')]]
              [PyStr ''Comedy'', PyStr ''Action'']"
    by simp
  note a = parse_cases [of literal_eval_sample "''[{'name': 'Comedy'}''"]
  note b = parse_cases [of literal_eval_sample "''[{'name': 'Comedy'}, {'name': 'Action'}]''"
      "[PyDict [(PyStr ''name'', PyStr ''Comedy'')], PyDict [(PyStr ''name'', PyStr ''Action'')]]"
      "[PyStr ''Comedy'', PyStr ''Action'']"]
  have c1: "parse literal_eval_sample None = Inr []"
    by (rule a [THEN conjunct1])
  have c2: "parse literal_eval_sample (Some ''[{'name': 'Comedy'}'') = Inr []"
    using a [THEN conjunct2, THEN conjunct1] h1 by blast
  have c3: "parse literal_eval_sample (Some ''[{'name': 'Comedy'}, {'name': 'Action'}]'')
        = Inr [PyStr ''Comedy'', PyStr ''Action'']"
    using b [THEN conjunct2, THEN conjunct2] h2 h3 by blast
  show ?thesis
    by (intro conjI c1 h1 c2 h2 c3)
qed

section \<open>Posters\<close>

lemma get_image_path_failed_request:
  "requests_get (url self) [(''apikey'', api_key self), (''t'', t), (''type'', ''movie'')] = Inl e
     \<Longrightarrow> get_image_path requests_get self t = Inl e"
  by (simp add: get_image_path_def)

lemma get_image_path_answered:
  assumes "requests_get (url self) [(''apikey'', api_key self), (''t'', t), (''type'', ''movie'')] = Inr r"
      and "status_code r = 200 \<Longrightarrow> json r = Inr (PyDict kvs)"
  shows "get_image_path requests_get self t
           = Inr (if status_code r = 200
                  then (case map_of kvs (PyStr ''Poster'') of None \<Rightarrow> PyNone | Some v \<Rightarrow> v)
                  else PyNone)"
proof (cases "status_code r = 200")
  case False
  with assms(1) show ?thesis by (simp add: get_image_path_def)
next
  case True
  with assms(2) have j: "json r = Inr (PyDict kvs)" by simp
  show ?thesis
  proof (cases "map_of kvs (PyStr ''Poster'')")
    case None
    then have "PyStr ''Poster'' \<notin> fst ` set kvs"
      by (simp add: map_of_eq_None_iff)
    with assms(1) True j None show ?thesis
      by (simp add: get_image_path_def)
  next
    case (Some v)
    then have "PyStr ''Poster'' \<in> fst ` set kvs"
      by (metis domI dom_map_of_conv_image_fst)
    with assms(1) True j Some show ?thesis
      by (simp add: get_image_path_def)
  qed
qed

lemma get_posters_first_error:
  "list_all (\<lambda>t'. \<exists>p. get_image_path requests_get self t' = Inr p) pre \<Longrightarrow>
   get_image_path requests_get self t = Inl e \<Longrightarrow>
     get_posters requests_get self (pre @ t # post) = Inl e"
  by (induction pre) auto

text \<open>
  C9, as the code has it.  When every request returns a response, and every response
  with status 200 decodes to a JSON object, \<^verbatim>\<open>get_posters\<close> does not raise and returns
  one entry per title, in order: the placeholder when the status is not 200, when the
  object has no \<^verbatim>\<open>'Poster'\<close> field or when the field is falsy, and the field otherwise.
\<close>

theorem get_posters_answered:
  assumes "list_all (\<lambda>t. \<exists>r. requests_get (url self)
                  [(''apikey'', api_key self), (''t'', t), (''type'', ''movie'')] = Inr r
              \<and> (status_code r = 200 \<longrightarrow> (\<exists>kvs. json r = Inr (PyDict kvs)))) titles"
  shows "\<exists>posters. get_posters requests_get self titles = Inr posters
           \<and> list_all2 (\<lambda>t p. \<exists>r. requests_get (url self)
                    [(''apikey'', api_key self), (''t'', t), (''type'', ''movie'')] = Inr r
                \<and> (status_code r \<noteq> 200 \<longrightarrow> p = PyStr placeholder)
                \<and> (\<forall>kvs. status_code r = 200 \<and> json r = Inr (PyDict kvs) \<longrightarrow>
                      p = (case map_of kvs (PyStr ''Poster'') of
                             None \<Rightarrow> PyStr placeholder
                           | Some v \<Rightarrow> if py_truthy v then v else PyStr placeholder)))
               titles posters"
  using assms
proof (induction titles)
  case Nil
  then show ?case by simp
next
  case (Cons t titles)
  from Cons.prems obtain r where
    r: "requests_get (url self) [(''apikey'', api_key self), (''t'', t), (''type'', ''movie'')] = Inr r"
    and ok: "status_code r = 200 \<longrightarrow> (\<exists>kvs. json r = Inr (PyDict kvs))"
    and rest: "list_all (\<lambda>t. \<exists>r. requests_get (url self)
                  [(''apikey'', api_key self), (''t'', t), (''type'', ''movie'')] = Inr r
              \<and> (status_code r = 200 \<longrightarrow> (\<exists>kvs. json r = Inr (PyDict kvs)))) titles"
    by auto
  from Cons.IH [OF rest] obtain posters where
    ps: "get_posters requests_get self titles = Inr posters"
    and rel: "list_all2 (\<lambda>t p. \<exists>r. requests_get (url self)
                    [(''apikey'', api_key self), (''t'', t), (''type'', ''movie'')] = Inr r
                \<and> (status_code r \<noteq> 200 \<longrightarrow> p = PyStr placeholder)
                \<and> (\<forall>kvs. status_code r = 200 \<and> json r = Inr (PyDict kvs) \<longrightarrow>
                      p = (case map_of kvs (PyStr ''Poster'') of
                             None \<Rightarrow> PyStr placeholder
                           | Some v \<Rightarrow> if py_truthy v then v else PyStr placeholder)))
               titles posters"
    by blast
  obtain kvs where kvs: "status_code r = 200 \<Longrightarrow> json r = Inr (PyDict kvs)"
    using ok by (cases "status_code r = 200") auto
  define path where "path = (if status_code r = 200
      then (case map_of kvs (PyStr ''Poster'') of None \<Rightarrow> PyNone | Some v \<Rightarrow> v) else PyNone)"
  have gp: "get_image_path requests_get self t = Inr path"
    unfolding path_def using r kvs by (rule get_image_path_answered)
  let ?p = "if py_truthy path then path else PyStr placeholder"
  have run: "get_posters requests_get self (t # titles) = Inr (?p # posters)"
    by (simp add: gp ps)
  have p1: "status_code r \<noteq> 200 \<longrightarrow> ?p = PyStr placeholder"
    by (simp add: path_def)
  have p2: "\<forall>kvs'. status_code r = 200 \<and> json r = Inr (PyDict kvs') \<longrightarrow>
              ?p = (case map_of kvs' (PyStr ''Poster'') of
                      None \<Rightarrow> PyStr placeholder
                    | Some v \<Rightarrow> if py_truthy v then v else PyStr placeholder)"
  proof (intro allI impI)
    fix kvs'
    assume h: "status_code r = 200 \<and> json r = Inr (PyDict kvs')"
    with kvs have "kvs' = kvs" by simp
    with h show "?p = (case map_of kvs' (PyStr ''Poster'') of
                      None \<Rightarrow> PyStr placeholder
                    | Some v \<Rightarrow> if py_truthy v then v else PyStr placeholder)"
      by (simp add: path_def split: option.splits)
  qed
  from r p1 p2 rel run show ?case
    by (intro exI [of _ "?p # posters"]) auto
qed

text \<open>
  C9 as stated fails: nothing catches an exception of the network call.  The request
  for ``Z'' raises, and the whole batch raises with it; no entry is produced for ``A''
  or ``B'' either.
\<close>

theorem get_posters_raises_counterexample:
  "get_posters requests_get_sample omdb [''A'', ''Z'', ''B''] = Inl RequestError"
  by (simp add: get_image_path_def requests_get_sample_def omdb_def)

text \<open>C9 on the sample network: a poster, a 200 answer without poster, a 404.\<close>

lemma get_posters_sample_run:
  "get_posters requests_get_sample omdb [''A'', ''B'', ''C'']
     = Inr [PyStr ''https://img/a.jpg'', PyStr placeholder, PyStr placeholder]"
  by (simp add: get_image_path_def requests_get_sample_def omdb_def)

theorem get_posters_answered_witness:
  "list_all (\<lambda>t. \<exists>r. requests_get_sample (url omdb)
                  [(''apikey'', api_key omdb), (''t'', t), (''type'', ''movie'')] = Inr r
              \<and> (status_code r = 200 \<longrightarrow> (\<exists>kvs. json r = Inr (PyDict kvs)))) [''A'', ''B'', ''C'']
   \<and> get_posters requests_get_sample omdb [''A'', ''B'', ''C'']
       = Inr [PyStr ''https://img/a.jpg'', PyStr placeholder, PyStr placeholder]
   \<and> (\<exists>posters. get_posters requests_get_sample omdb [''A'', ''B'', ''C''] = Inr posters
         \<and> list_all2 (\<lambda>t p. \<exists>r. requests_get_sample (url omdb)
                    [(''apikey'', api_key omdb), (''t'', t), (''type'', ''movie'')] = Inr r
                \<and> (status_code r \<noteq> 200 \<longrightarrow> p = PyStr placeholder)
                \<and> (\<forall>kvs. status_code r = 200 \<and> json r = Inr (PyDict kvs) \<longrightarrow>
                      p = (case map_of kvs (PyStr ''Poster'') of
                             None \<Rightarrow> PyStr placeholder
                           | Some v \<Rightarrow> if py_truthy v then v else PyStr placeholder)))
               [''A'', ''B'', ''C''] posters)"
proof -
  have h: "list_all (\<lambda>t. \<exists>r. requests_get_sample (url omdb)
                  [(''apikey'', api_key omdb), (''t'', t), (''type'', ''movie'')] = Inr r
              \<and> (status_code r = 200 \<longrightarrow> (\<exists>kvs. json r = Inr (PyDict kvs)))) [''A'', ''B'', ''C'']"
    by (simp add: requests_get_sample_def)
  show ?thesis
    by (intro conjI h get_posters_sample_run
        get_posters_answered [of requests_get_sample omdb "[''A'', ''B'', ''C'']", OF h])
qed

end
